theory Spec2Isabelle
  imports Complex_Main
begin

section \<open>The interval tree of remove_common_subsequences_dp_reinventing_the_wheel.py\<close>

text \<open>
  The class \<open>interval_tree_genomics\<close> is an AVL tree of intervals whose nodes point to
  their children and to their parent. Its methods mutate the nodes in place and walk the
  parent links upwards, so the model is an explicit store: every attribute of the class is
  a function from object references to values, a reference is a natural number, and
  Python's \<open>None\<close> is \<open>None\<close> of an option type. The store also holds the attributes of
  the class object itself (a dictionary from attribute names to integers) and the number of
  objects allocated so far.

  Exceptions are values: \<open>AttributeError\<close> (reading an attribute of \<open>None\<close>, or a class
  attribute that does not exist) and \<open>ValueError\<close> (raised by the rebalancing driver) are
  the two the source can raise. \<open>InvalidIntervalError\<close> and \<open>UnsupportedOperation\<close> are
  named by the specification only; no path of the source raises them.

  The loops and recursions of the source follow links of the store, which could be cyclic,
  so every one of them takes fuel and answers \<open>Timeout\<close> when it runs out. The
  \<open>print\<close> calls of the rotations and the plotting method \<open>visualize\<close> are left out.
\<close>

datatype error = AttributeError | ValueError | InvalidIntervalError | UnsupportedOperation

datatype 'a result = Return 'a | Raise error | Timeout

fun rbind :: "'a result \<Rightarrow> ('a \<Rightarrow> 'b result) \<Rightarrow> 'b result" where
  "rbind (Return x) f = f x"
| "rbind (Raise e) f = Raise e"
| "rbind Timeout f = Timeout"

type_synonym ref = nat

record 'p store =
  class_attrs :: "string \<rightharpoonup> int"
  allocated :: nat
  node_id :: "ref \<Rightarrow> int"
  left_child :: "ref \<Rightarrow> ref option"
  right_child :: "ref \<Rightarrow> ref option"
  parent :: "ref \<Rightarrow> ref option"
  sequence :: "ref \<Rightarrow> 'p"
  balance_factor :: "ref \<Rightarrow> int"
  interval_start :: "ref \<Rightarrow> int"
  interval_end :: "ref \<Rightarrow> int"
  ref_seq_id :: "ref \<Rightarrow> 'p"
  targ_seq_id :: "ref \<Rightarrow> 'p"
  max_position :: "ref \<Rightarrow> int"

text \<open>
  The class body binds the single class attribute \<open>id_counter = 0\<close> (line 11).
\<close>

definition class_body :: "string \<rightharpoonup> int" where
  "class_body = [''id_counter'' \<mapsto> 0]"

text \<open>
  \<open>__init__\<close> (lines 21-33). Its first statement reads the class attribute
  \<open>_id_counter\<close>; a class without that attribute raises \<open>AttributeError\<close> there. The new
  object takes the next free reference.
\<close>

definition init ::
  "'p store \<Rightarrow> int \<Rightarrow> int \<Rightarrow> ref option \<Rightarrow> ref option \<Rightarrow> ref option \<Rightarrow> 'p \<Rightarrow> 'p \<Rightarrow> 'p
    \<Rightarrow> (ref \<times> 'p store) result" where
  "init s start end left right par seq rid tid =
     (case class_attrs s ''_id_counter'' of
        None \<Rightarrow> Raise AttributeError
      | Some c \<Rightarrow>
          (let self = allocated s in
           Return (self,
             s\<lparr>class_attrs := (class_attrs s)(''_id_counter'' \<mapsto> c + 1),
               allocated := Suc self,
               node_id := (node_id s)(self := c),
               left_child := (left_child s)(self := left),
               right_child := (right_child s)(self := right),
               parent := (parent s)(self := par),
               sequence := (sequence s)(self := seq),
               balance_factor := (balance_factor s)(self := 0),
               interval_start := (interval_start s)(self := start),
               interval_end := (interval_end s)(self := end),
               ref_seq_id := (ref_seq_id s)(self := rid),
               targ_seq_id := (targ_seq_id s)(self := tid),
               max_position := (max_position s)(self := end)\<rparr>)))"

text \<open>\<open>get_root\<close> (lines 74-78): the loop climbs the parent links.\<close>

fun get_root :: "nat \<Rightarrow> 'p store \<Rightarrow> ref \<Rightarrow> ref result" where
  "get_root 0 s current = Timeout"
| "get_root (Suc n) s current =
     (case parent s current of
        None \<Rightarrow> Return current
      | Some p \<Rightarrow> get_root n s p)"

text \<open>\<open>update_root\<close> (lines 80-84).\<close>

definition update_root :: "nat \<Rightarrow> 'p store \<Rightarrow> ref \<Rightarrow> (ref \<times> 'p store) result" where
  "update_root n s self =
     rbind (get_root n s self) (\<lambda>root.
       if parent s root \<noteq> None
       then Return (root, s\<lparr>parent := (parent s)(root := None)\<rparr>)
       else Return (root, s))"

text \<open>
  \<open>_single_left_rotation\<close> (lines 86-107). \<open>new_root.left_child\<close> raises
  \<open>AttributeError\<close> when \<open>self.right_child\<close> is \<open>None\<close>, before anything is written.
  \<open>self == self.parent.left_child\<close> compares object identities, the class defining no
  \<open>__eq__\<close>.
\<close>

definition single_left_rotation :: "nat \<Rightarrow> 'p store \<Rightarrow> ref \<Rightarrow> (ref \<times> 'p store) result" where
  "single_left_rotation n s self =
     (case right_child s self of
        None \<Rightarrow> Raise AttributeError
      | Some new_root \<Rightarrow>
          (let s1 = s\<lparr>right_child := (right_child s)(self := left_child s new_root)\<rparr>;
               s2 = (case left_child s1 new_root of
                       None \<Rightarrow> s1
                     | Some l \<Rightarrow> s1\<lparr>parent := (parent s1)(l := Some self)\<rparr>);
               s3 = s2\<lparr>parent := (parent s2)(new_root := parent s2 self)\<rparr>;
               s4 = (case parent s3 self of
                       None \<Rightarrow> s3
                     | Some p \<Rightarrow>
                         if Some self = left_child s3 p
                         then s3\<lparr>left_child := (left_child s3)(p := Some new_root)\<rparr>
                         else s3\<lparr>right_child := (right_child s3)(p := Some new_root)\<rparr>);
               s5 = s4\<lparr>left_child := (left_child s4)(new_root := Some self)\<rparr>;
               s6 = s5\<lparr>parent := (parent s5)(self := Some new_root)\<rparr>;
               s7 = s6\<lparr>balance_factor := (balance_factor s6)(self := 0)\<rparr>;
               s8 = s7\<lparr>balance_factor := (balance_factor s7)(new_root := 0)\<rparr>
           in update_root n s8 new_root))"

text \<open>\<open>_single_right_rotation\<close> (lines 109-130), the mirror image.\<close>

definition single_right_rotation :: "nat \<Rightarrow> 'p store \<Rightarrow> ref \<Rightarrow> (ref \<times> 'p store) result" where
  "single_right_rotation n s self =
     (case left_child s self of
        None \<Rightarrow> Raise AttributeError
      | Some new_root \<Rightarrow>
          (let s1 = s\<lparr>left_child := (left_child s)(self := right_child s new_root)\<rparr>;
               s2 = (case right_child s1 new_root of
                       None \<Rightarrow> s1
                     | Some r \<Rightarrow> s1\<lparr>parent := (parent s1)(r := Some self)\<rparr>);
               s3 = s2\<lparr>parent := (parent s2)(new_root := parent s2 self)\<rparr>;
               s4 = (case parent s3 self of
                       None \<Rightarrow> s3
                     | Some p \<Rightarrow>
                         if Some self = left_child s3 p
                         then s3\<lparr>left_child := (left_child s3)(p := Some new_root)\<rparr>
                         else s3\<lparr>right_child := (right_child s3)(p := Some new_root)\<rparr>);
               s5 = s4\<lparr>right_child := (right_child s4)(new_root := Some self)\<rparr>;
               s6 = s5\<lparr>parent := (parent s5)(self := Some new_root)\<rparr>;
               s7 = s6\<lparr>balance_factor := (balance_factor s6)(self := 0)\<rparr>;
               s8 = s7\<lparr>balance_factor := (balance_factor s7)(new_root := 0)\<rparr>
           in update_root n s8 new_root))"

text \<open>
  The double rotations (lines 132-138) call the two single rotations in turn and drop what
  they return.
\<close>

definition double_right_left_rotation :: "nat \<Rightarrow> 'p store \<Rightarrow> ref \<Rightarrow> 'p store result" where
  "double_right_left_rotation n s self =
     (case right_child s self of
        None \<Rightarrow> Raise AttributeError
      | Some r \<Rightarrow>
          rbind (single_right_rotation n s r) (\<lambda>(_, s1).
          rbind (single_left_rotation n s1 self) (\<lambda>(_, s2). Return s2)))"

definition double_left_right_rotation :: "nat \<Rightarrow> 'p store \<Rightarrow> ref \<Rightarrow> 'p store result" where
  "double_left_right_rotation n s self =
     (case left_child s self of
        None \<Rightarrow> Raise AttributeError
      | Some l \<Rightarrow>
          rbind (single_left_rotation n s l) (\<lambda>(_, s1).
          rbind (single_right_rotation n s1 self) (\<lambda>(_, s2). Return s2)))"

text \<open>
  \<open>_update_balance_factors_and_rebalance\<close> (lines 141-176). The \<open>elif\<close> chain is kept in
  the source's order: \<open>and\<close> evaluates \<open>self.right_child.balance_factor\<close> only when
  \<open>self.balance_factor == 2\<close>, and \<open>self.left_child.balance_factor\<close> only when it is
  \<open>-2\<close>; a child that is \<open>None\<close> raises \<open>AttributeError\<close> there. A balance factor of
  \<open>2\<close> or \<open>-2\<close> over a child whose balance factor is neither \<open>1\<close> nor \<open>-1\<close> matches no
  branch and falls through to the last \<open>if\<close>, as \<open>1\<close> and \<open>-1\<close> do. That \<open>if\<close> reads
  \<open>self.parent.right_child.node_id\<close>, which raises \<open>AttributeError\<close> when the parent has
  no right child. The method returns \<open>None\<close> on every path.
\<close>

fun update_balance_factors_and_rebalance ::
  "nat \<Rightarrow> 'p store \<Rightarrow> ref \<Rightarrow> bool \<Rightarrow> 'p store result" where
  "update_balance_factors_and_rebalance 0 s self insertion_on_right_subtree = Timeout"
| "update_balance_factors_and_rebalance (Suc n) s self insertion_on_right_subtree =
     (let s1 = (if insertion_on_right_subtree
                then s\<lparr>balance_factor := (balance_factor s)(self := balance_factor s self + 1)\<rparr>
                else s\<lparr>balance_factor := (balance_factor s)(self := balance_factor s self - 1)\<rparr>);
          propagate =
            (case parent s1 self of
               None \<Rightarrow> Return s1
             | Some p \<Rightarrow>
                 (case right_child s1 p of
                    None \<Rightarrow> Raise AttributeError
                  | Some r \<Rightarrow>
                      update_balance_factors_and_rebalance n s1 p
                        (node_id s1 r = node_id s1 self)))
      in
      if balance_factor s1 self = 0 then Return s1
      else if \<bar>balance_factor s1 self\<bar> > 2 then Raise ValueError
      else if balance_factor s1 self = 2 then
        (case right_child s1 self of
           None \<Rightarrow> Raise AttributeError
         | Some r \<Rightarrow>
             if balance_factor s1 r = 1
             then rbind (single_left_rotation n s1 self) (\<lambda>(_, s2). Return s2)
             else if balance_factor s1 r = - 1
             then double_right_left_rotation n s1 self
             else propagate)
      else if balance_factor s1 self = - 2 then
        (case left_child s1 self of
           None \<Rightarrow> Raise AttributeError
         | Some l \<Rightarrow>
             if balance_factor s1 l = - 1
             then rbind (single_right_rotation n s1 self) (\<lambda>(_, s2). Return s2)
             else if balance_factor s1 l = 1
             then double_left_right_rotation n s1 self
             else propagate)
      else propagate)"

text \<open>
  The tail of \<open>insert\<close> (lines 64-71), run by every call of \<open>insert\<close> once its descent has
  returned: \<open>max_position\<close> is raised to the largest \<open>max_position\<close> of the children the
  node has at that moment.
\<close>

definition update_max_position :: "'p store \<Rightarrow> ref \<Rightarrow> 'p store" where
  "update_max_position s self =
     (case (left_child s self, right_child s self) of
        (None, None) \<Rightarrow> s
      | (Some l, None) \<Rightarrow>
          s\<lparr>max_position := (max_position s)(self := max (max_position s self) (max_position s l))\<rparr>
      | (None, Some r) \<Rightarrow>
          s\<lparr>max_position := (max_position s)(self := max (max_position s self) (max_position s r))\<rparr>
      | (Some l, Some r) \<Rightarrow>
          s\<lparr>max_position := (max_position s)(self :=
              max (max (max_position s l) (max_position s r)) (max_position s self))\<rparr>)"

text \<open>
  \<open>insert\<close> (lines 35-71). No \<open>return\<close> statement of the method carries a value, so the
  call evaluates to \<open>None\<close>; the model returns that value next to the store.
\<close>

fun insert_node :: "nat \<Rightarrow> 'p store \<Rightarrow> ref \<Rightarrow> ref \<Rightarrow> (ref option \<times> 'p store) result" where
  "insert_node 0 s self node = Timeout"
| "insert_node (Suc n) s self node =
     rbind
       (if interval_start s self \<ge> interval_start s node then
          (case left_child s self of
             Some l \<Rightarrow> rbind (insert_node n s l node) (\<lambda>(_, s1). Return s1)
           | None \<Rightarrow>
               update_balance_factors_and_rebalance n
                 (s\<lparr>parent := (parent s)(node := Some self),
                    left_child := (left_child s)(self := Some node)\<rparr>) self False)
        else if interval_start s self < interval_start s node then
          (case right_child s self of
             Some r \<Rightarrow> rbind (insert_node n s r node) (\<lambda>(_, s1). Return s1)
           | None \<Rightarrow>
               update_balance_factors_and_rebalance n
                 (s\<lparr>parent := (parent s)(node := Some self),
                    right_child := (right_child s)(self := Some node)\<rparr>) self True)
        else Return s)
       (\<lambda>s1. Return (None, update_max_position s1 self))"

text \<open>\<open>delete\<close> (lines 178-180): the body is \<open>pass\<close>.\<close>

definition delete :: "'p store \<Rightarrow> ref \<Rightarrow> ref \<Rightarrow> (ref option \<times> 'p store) result" where
  "delete s self node = Return (None, s)"

text \<open>
  The store when the program starts: no object is allocated. What the attribute functions
  hold at references not yet allocated is never read before \<open>__init__\<close> has written
  it; the start store holds \<open>None\<close> and \<open>0\<close> there.
\<close>

definition start_store :: "(string \<rightharpoonup> int) \<Rightarrow> 'p \<Rightarrow> 'p store" where
  "start_store attrs d =
     \<lparr>class_attrs = attrs, allocated = 0, node_id = (\<lambda>_. 0),
      left_child = (\<lambda>_. None), right_child = (\<lambda>_. None), parent = (\<lambda>_. None),
      sequence = (\<lambda>_. d), balance_factor = (\<lambda>_. 0),
      interval_start = (\<lambda>_. 0), interval_end = (\<lambda>_. 0),
      ref_seq_id = (\<lambda>_. d), targ_seq_id = (\<lambda>_. d), max_position = (\<lambda>_. 0)\<rparr>"

text \<open>
  A class object on which \<open>_id_counter\<close> has been set to \<open>0\<close>, the attribute that
  \<open>__init__\<close> reads, next to the \<open>id_counter\<close> of the class body. No statement of the
  source makes this assignment; the runs below that get past the first \<open>__init__\<close> start
  from it.
\<close>

definition class_with_counter :: "string \<rightharpoonup> int" where
  "class_with_counter = class_body(''_id_counter'' \<mapsto> 0)"

text \<open>
  The body of the main loop for \<open>i > 0\<close> (lines 280-287): a node is created for the
  interval and \<open>tree.insert(node)\<close> is called; the result is what \<open>insert\<close> returns.
\<close>

definition create_and_insert ::
  "nat \<Rightarrow> 'p \<Rightarrow> 'p store \<Rightarrow> ref \<Rightarrow> int \<times> int \<Rightarrow> (ref option \<times> 'p store) result" where
  "create_and_insert n d s tree iv =
     rbind (init s (fst iv) (snd iv) None None None d d d) (\<lambda>(node, s1).
       insert_node n s1 tree node)"

text \<open>
  The loop of the main block (lines 277-287), with the random intervals replaced by the
  list it is given: the first node becomes \<open>tree\<close>, every later node is inserted by
  \<open>tree.insert(node)\<close>, and \<open>tree\<close> is never assigned again.
\<close>

fun main_inserts ::
  "nat \<Rightarrow> 'p \<Rightarrow> ref option \<Rightarrow> 'p store \<Rightarrow> (int \<times> int) list \<Rightarrow> (ref option \<times> 'p store) result" where
  "main_inserts n d tree s [] = Return (tree, s)"
| "main_inserts n d None s (iv # rest) =
     rbind (init s (fst iv) (snd iv) None None None d d d) (\<lambda>(node, s1).
       main_inserts n d (Some node) s1 rest)"
| "main_inserts n d (Some t) s (iv # rest) =
     rbind (create_and_insert n d s t iv) (\<lambda>(_, s1).
       main_inserts n d (Some t) s1 rest)"

subsection \<open>Observing a store\<close>

text \<open>
  The attributes of the allocated nodes, in the order of their creation: for each node
  \<open>(interval_start, interval_end, left_child, right_child, parent, balance_factor,
  max_position)\<close>.
\<close>

type_synonym node_view = "int \<times> int \<times> ref option \<times> ref option \<times> ref option \<times> int \<times> int"

definition snapshot :: "'p store \<Rightarrow> node_view list" where
  "snapshot s =
     map (\<lambda>a. (interval_start s a, interval_end s a, left_child s a, right_child s a,
               parent s a, balance_factor s a, max_position s a))
         [0 ..< allocated s]"

definition observe :: "('a \<times> 'p store) result \<Rightarrow> ('a \<times> node_view list) result" where
  "observe r = rbind r (\<lambda>(v, s). Return (v, snapshot s))"

text \<open>
  The in-order traversal of the specification: the \<open>interval_start\<close> values of the left
  subtree, of the node, of the right subtree. The main loop followed by the traversal from
  the root that \<open>get_root\<close> finds.
\<close>

fun inorder_starts :: "nat \<Rightarrow> 'p store \<Rightarrow> ref option \<Rightarrow> int list" where
  "inorder_starts 0 s r = []"
| "inorder_starts (Suc n) s None = []"
| "inorder_starts (Suc n) s (Some a) =
     inorder_starts n s (left_child s a) @ [interval_start s a]
       @ inorder_starts n s (right_child s a)"

definition main_inorder :: "nat \<Rightarrow> 'p \<Rightarrow> (int \<times> int) list \<Rightarrow> int list result" where
  "main_inorder n d ivs =
     rbind (main_inserts n d None (start_store class_with_counter d) ivs) (\<lambda>(tree, s).
       case tree of
         None \<Rightarrow> Return []
       | Some t \<Rightarrow> rbind (get_root n s t) (\<lambda>r. Return (inorder_starts n s (Some r))))"

text \<open>
  The store the main loop reaches with the intervals \<open>(1, 1)\<close> and \<open>(2, 2)\<close>: node \<open>0\<close>
  is the root and node \<open>1\<close> its right child.
\<close>

definition two_nodes :: "unit store" where
  "two_nodes =
     \<lparr>class_attrs = class_body(''_id_counter'' \<mapsto> 2), allocated = 2,
      node_id = (\<lambda>_. 0)(1 := 1),
      left_child = (\<lambda>_. None), right_child = (\<lambda>_. None)(0 := Some 1),
      parent = (\<lambda>_. None)(1 := Some 0),
      sequence = (\<lambda>_. ()), balance_factor = (\<lambda>_. 0)(0 := 1),
      interval_start = (\<lambda>_. 0)(0 := 1, 1 := 2), interval_end = (\<lambda>_. 0)(0 := 1, 1 := 2),
      ref_seq_id = (\<lambda>_. ()), targ_seq_id = (\<lambda>_. ()),
      max_position = (\<lambda>_. 0)(0 := 2, 1 := 2)\<rparr>"

subsection \<open>Placement, in the words of the specification\<close>

text \<open>
  The specification describes the placement of a new node as a descent that compares
  \<open>interval_start\<close>: where the visited node's start is greater than or equal to the new
  node's start the descent goes left (ties go left), otherwise right, and it ends at the
  first missing child slot. \<open>find_slot\<close> follows these words: it returns the nodes
  visited above the slot (outermost first), the node that owns the slot, and the side of
  the slot (\<open>True\<close> for right). \<open>attach\<close> links the new node into a slot and sets its
  parent link. \<open>place_then_rebalance\<close> is the insertion the specification describes:
  find the slot, attach, run the rebalancing driver on the node that owns the slot, then
  raise \<open>max_position\<close> along the visited nodes, innermost first.
\<close>

fun find_slot :: "nat \<Rightarrow> 'p store \<Rightarrow> ref \<Rightarrow> ref \<Rightarrow> (ref list \<times> ref \<times> bool) result" where
  "find_slot 0 s visited node = Timeout"
| "find_slot (Suc n) s visited node =
     (if interval_start s visited \<ge> interval_start s node then
        (case left_child s visited of
           None \<Rightarrow> Return ([], visited, False)
         | Some l \<Rightarrow>
             rbind (find_slot n s l node) (\<lambda>(path, slot). Return (visited # path, slot)))
      else
        (case right_child s visited of
           None \<Rightarrow> Return ([], visited, True)
         | Some r \<Rightarrow>
             rbind (find_slot n s r node) (\<lambda>(path, slot). Return (visited # path, slot))))"

definition attach :: "'p store \<Rightarrow> ref \<Rightarrow> bool \<Rightarrow> ref \<Rightarrow> 'p store" where
  "attach s owner on_right node =
     (if on_right
      then s\<lparr>parent := (parent s)(node := Some owner),
             right_child := (right_child s)(owner := Some node)\<rparr>
      else s\<lparr>parent := (parent s)(node := Some owner),
             left_child := (left_child s)(owner := Some node)\<rparr>)"

definition place_then_rebalance ::
  "nat \<Rightarrow> 'p store \<Rightarrow> ref \<Rightarrow> ref \<Rightarrow> (ref option \<times> 'p store) result" where
  "place_then_rebalance n s self node =
     rbind (find_slot n s self node) (\<lambda>(path, owner, on_right).
       rbind (update_balance_factors_and_rebalance (n - Suc (length path))
                (attach s owner on_right node) owner on_right) (\<lambda>s1.
         Return (None, fold (\<lambda>a st. update_max_position st a) (owner # rev path) s1)))"

subsection \<open>Stores reached by insertions\<close>


text \<open>
  The invariants of the reached stores. \<open>links_ok\<close>: child and parent links agree, no
  node is both children of its parent, and the parent links are acyclic (some ranking
  grows strictly along them). \<open>balance_ok\<close>: every stored balance factor is \<open>-1\<close>,
  \<open>0\<close> or \<open>1\<close>, and a non-zero one points to a side that has a child. \<open>ids_ok\<close>: only
  allocated nodes are linked, and their \<open>node_id\<close>s are distinct and below the counter.
\<close>

definition links_ok :: "'p store \<Rightarrow> bool" where
  "links_ok s \<longleftrightarrow>
     (\<forall>a b. left_child s a = Some b \<longrightarrow> parent s b = Some a) \<and>
     (\<forall>a b. right_child s a = Some b \<longrightarrow> parent s b = Some a) \<and>
     (\<forall>a b. parent s b = Some a \<longrightarrow> left_child s a = Some b \<or> right_child s a = Some b) \<and>
     (\<forall>a b. left_child s a = Some b \<longrightarrow> right_child s a \<noteq> Some b) \<and>
     (\<exists>rk :: ref \<Rightarrow> real. \<forall>a b. parent s b = Some a \<longrightarrow> rk b < rk a)"

definition balance_ok :: "'p store \<Rightarrow> bool" where
  "balance_ok s \<longleftrightarrow>
     (\<forall>a. \<bar>balance_factor s a\<bar> \<le> 1 \<and>
          (balance_factor s a = 1 \<longrightarrow> right_child s a \<noteq> None) \<and>
          (balance_factor s a = - 1 \<longrightarrow> left_child s a \<noteq> None))"

definition ids_ok :: "'p store \<Rightarrow> bool" where
  "ids_ok s \<longleftrightarrow>
     (\<forall>a b. parent s b = Some a \<longrightarrow> a < allocated s \<and> b < allocated s) \<and>
     (\<forall>a b. a < allocated s \<longrightarrow> b < allocated s \<longrightarrow> node_id s a = node_id s b \<longrightarrow> a = b) \<and>
     (\<exists>c. class_attrs s ''_id_counter'' = Some c \<and> (\<forall>a. a < allocated s \<longrightarrow> node_id s a < c))"

text \<open>
  \<open>same_data s s'\<close>: the two stores agree on everything but the links, the balance
  factors and \<open>max_position\<close>.
\<close>

definition same_data :: "'p store \<Rightarrow> 'p store \<Rightarrow> bool" where
  "same_data s s' \<longleftrightarrow>
     class_attrs s' = class_attrs s \<and> allocated s' = allocated s \<and> node_id s' = node_id s \<and>
     interval_start s' = interval_start s \<and> interval_end s' = interval_end s \<and>
     sequence s' = sequence s \<and> ref_seq_id s' = ref_seq_id s \<and> targ_seq_id s' = targ_seq_id s"

subsection \<open>What the proof of the balance invariant speaks of\<close>







definition mirrored :: "'p store \<Rightarrow> 'p store" where
  "mirrored s = s\<lparr>left_child := right_child s, right_child := left_child s\<rparr>"


definition tree_inv :: "'p store \<Rightarrow> bool" where
  "tree_inv s \<longleftrightarrow> links_ok s \<and> ids_ok s \<and> balance_ok s"

text \<open>
  The parts of the driver (lines 141-176): \<open>set_bf\<close> is the assignment to
  \<open>self.balance_factor\<close> of lines 143-146, \<open>propagate\<close> the call on the parent of lines
  174-176.
\<close>

definition set_bf :: "'p store \<Rightarrow> ref \<Rightarrow> int \<Rightarrow> 'p store" where
  "set_bf s a b = s\<lparr>balance_factor := (balance_factor s)(a := b)\<rparr>"

definition propagate :: "nat \<Rightarrow> 'p store \<Rightarrow> ref \<Rightarrow> 'p store result" where
  "propagate n s X =
     (case parent s X of
        None \<Rightarrow> Return s
      | Some p \<Rightarrow>
          (case right_child s p of
             None \<Rightarrow> Raise AttributeError
           | Some r \<Rightarrow>
               update_balance_factors_and_rebalance n s p (node_id s r = node_id s X)))"




section \<open>Evaluating runs\<close>

lemmas run_defs = start_store_def class_with_counter_def class_body_def init_def Let_def
  update_max_position_def single_left_rotation_def single_right_rotation_def
  double_left_right_rotation_def double_right_left_rotation_def update_root_def
  create_and_insert_def snapshot_def observe_def main_inorder_def upt_rec
  eval_nat_numeral

lemma main_reaches_two_nodes:
  "main_inserts 20 () None (start_store class_with_counter ()) [(1, 1), (2, 2)]
     = Return (Some 0, two_nodes)"
  by (simp add: run_defs two_nodes_def fun_eq_iff)


section \<open>Node creation\<close>

text \<open>
  C9. Every created node is to receive a unique, increasing id from the class counter, and
  creation is to succeed in assigning it. The class body defines \<open>id_counter\<close>, but
  \<open>__init__\<close> reads \<open>_id_counter\<close>: in a program that starts from the class body,
  every creation raises \<open>AttributeError\<close> at line 22, whatever its arguments.
\<close>

theorem init_raises_without_counter:
  "init (start_store class_body d) start end left right par sq rid tid = Raise AttributeError"
  by (simp add: init_def start_store_def class_body_def)

text \<open>
  C7, as stated: creation fails with \<open>InvalidIntervalError\<close> exactly when
  \<open>start > end\<close>. With \<open>start = 5\<close> and \<open>end = 3\<close> it does not: on a class that has the
  counter the node is created, with \<open>interval_start = 5\<close>, \<open>interval_end = 3\<close> and
  \<open>max_position = 3\<close>; on the class body it raises \<open>AttributeError\<close>, as it does for
  every interval.
\<close>

theorem init_accepts_reversed_interval:
  "observe (init (start_store class_with_counter ()) 5 3 None None None () () ())
     = Return (0, [(5, 3, None, None, None, 0, 3)])
   \<and> init (start_store class_body ()) 5 3 None None None () () () = Raise AttributeError"
  by (simp add: run_defs)

text \<open>
  C7, amended: \<open>__init__\<close> does not compare \<open>start\<close> with \<open>end\<close>. Whether it returns
  depends on nothing but the presence of the class attribute \<open>_id_counter\<close>: it returns
  exactly when the attribute is there, for every \<open>start\<close> and \<open>end\<close>, also when
  \<open>start > end\<close>. It never fails with \<open>InvalidIntervalError\<close>, and a creation that
  returns has produced a node with the given \<open>interval_start\<close> and \<open>interval_end\<close>, with
  \<open>max_position\<close> set to its own \<open>interval_end\<close>, and with balance factor \<open>0\<close>.
\<close>

theorem init_never_rejects_interval:
  "((\<exists>r. init s start end left right par sq rid tid = Return r)
      \<longleftrightarrow> class_attrs s ''_id_counter'' \<noteq> None) \<and>
   init s start end left right par sq rid tid \<noteq> Raise InvalidIntervalError \<and>
   (init s start end left right par sq rid tid = Return (self, s') \<longrightarrow>
      interval_start s' self = start \<and> interval_end s' self = end \<and>
      max_position s' self = end \<and> balance_factor s' self = 0)"
  by (auto simp: init_def Let_def split: option.splits)

theorem init_never_rejects_interval_witness:
  "\<exists>self s'. init (start_store class_with_counter ()) 9 4 None None None () () ()
                = Return (self, s')
     \<and> interval_start s' self = 9 \<and> interval_end s' self = 4 \<and> max_position s' self = 4
     \<and> balance_factor s' self = 0"
proof -
  have c: "class_attrs (start_store class_with_counter ()) ''_id_counter'' \<noteq> None"
    by (simp add: start_store_def class_with_counter_def)
  from c init_never_rejects_interval
         [of "start_store class_with_counter ()" 9 4 None None None "()" "()" "()"]
  obtain r where
    r: "init (start_store class_with_counter ()) 9 4 None None None () () () = Return r"
    by blast
  obtain self s' where "r = (self, s')" by (cases r)
  with r init_never_rejects_interval
         [of "start_store class_with_counter ()" 9 4 None None None "()" "()" "()" self s']
  show ?thesis by blast
qed

section \<open>Deletion\<close>

text \<open>
  C8, as stated: \<open>delete\<close> fails with an explicit "unsupported operation" error. On the
  tree of two nodes, \<open>delete\<close> called on the root with the other node returns \<open>None\<close>
  and no error.
\<close>

theorem delete_does_not_raise:
  "delete two_nodes 0 1 = Return (None, two_nodes)"
  by (simp add: delete_def)

text \<open>
  C8, amended: for every tree state and every argument, \<open>delete\<close> returns \<open>None\<close>
  without raising and leaves the tree unchanged; it is a silent no-op.
\<close>

theorem delete_is_silent_noop:
  "delete s self node = Return (None, s)"
  by (simp add: delete_def)

section \<open>What insertion leaves alone\<close>

lemma same_data_refl [simp]: "same_data s s"
  by (simp add: same_data_def)

lemma same_data_trans: "same_data s s1 \<Longrightarrow> same_data s1 s2 \<Longrightarrow> same_data s s2"
  by (simp add: same_data_def)

lemma rbind_Return: "rbind m f = Return y \<longleftrightarrow> (\<exists>x. m = Return x \<and> f x = Return y)"
  by (cases m) auto

lemma rbind_assoc: "rbind (rbind m f) g = rbind m (\<lambda>x. rbind (f x) g)"
  by (cases m) auto

lemma get_root_parent: "get_root n s a = Return r \<Longrightarrow> parent s r = None"
  by (induction n arbitrary: a) (auto split: option.splits)

lemma update_root_same: "update_root n s a = Return (r, s') \<Longrightarrow> s' = s"
  by (cases "get_root n s a") (auto simp: update_root_def dest: get_root_parent)

lemma single_left_rotation_data:
  "single_left_rotation n s a = Return (r, s') \<Longrightarrow> same_data s s'"
  by (auto simp: single_left_rotation_def Let_def same_data_def split: option.splits if_splits
      dest!: update_root_same)

lemma single_right_rotation_data:
  "single_right_rotation n s a = Return (r, s') \<Longrightarrow> same_data s s'"
  by (auto simp: single_right_rotation_def Let_def same_data_def split: option.splits if_splits
      dest!: update_root_same)

lemma double_right_left_rotation_data:
  "double_right_left_rotation n s a = Return s' \<Longrightarrow> same_data s s'"
  by (auto simp: double_right_left_rotation_def rbind_Return split: option.splits
      dest!: single_left_rotation_data single_right_rotation_data intro: same_data_trans)

lemma double_left_right_rotation_data:
  "double_left_right_rotation n s a = Return s' \<Longrightarrow> same_data s s'"
  by (auto simp: double_left_right_rotation_def rbind_Return split: option.splits
      dest!: single_left_rotation_data single_right_rotation_data intro: same_data_trans)

lemma update_balance_data:
  "update_balance_factors_and_rebalance n s a f = Return s' \<Longrightarrow> same_data s s'"
proof (induction n arbitrary: s a f s')
  case 0
  then show ?case by simp
next
  case (Suc n)
  show ?case using Suc.prems
    apply (simp add: Let_def rbind_Return split: if_splits option.splits)
    by (auto dest!: Suc.IH single_left_rotation_data single_right_rotation_data
          double_right_left_rotation_data double_left_right_rotation_data
          simp: same_data_def)
qed

lemma update_max_position_data [simp]: "same_data s (update_max_position s a)"
  by (simp add: update_max_position_def same_data_def split: option.splits)

lemma same_data_links [simp]:
  "same_data (s\<lparr>parent := p, left_child := l\<rparr>) s' = same_data s s'"
  "same_data (s\<lparr>parent := p, right_child := r\<rparr>) s' = same_data s s'"
  by (simp_all add: same_data_def)

lemma same_data_max: "same_data s s1 \<Longrightarrow> same_data s (update_max_position s1 a)"
  by (rule same_data_trans[OF _ update_max_position_data])

lemma insert_node_data:
  "insert_node n s self node = Return (v, s') \<Longrightarrow> same_data s s'"
proof (induction n arbitrary: s self s' v)
  case 0
  then show ?case by simp
next
  case (Suc n)
  show ?case using Suc.prems
    by (auto simp: rbind_Return split: if_splits option.splits
        dest!: Suc.IH update_balance_data intro!: same_data_max)
qed

lemma insert_node_None: "insert_node n s self node = Return (v, s') \<Longrightarrow> v = None"
  by (cases n) (auto simp: rbind_Return)

text \<open>
  C10. An insertion that completes modifies neither \<open>interval_start\<close>, \<open>interval_end\<close>
  nor the payload attributes \<open>sequence\<close>, \<open>ref_seq_id\<close> and \<open>targ_seq_id\<close> of any node,
  the new node included; only balance factors, \<open>max_position\<close> and the links change. The
  \<open>node_id\<close>s, the set of allocated nodes and the class attributes are unchanged as
  well.
\<close>

theorem insert_node_frame:
  "insert_node n s self node = Return (v, s') \<Longrightarrow>
     interval_start s' = interval_start s \<and> interval_end s' = interval_end s \<and>
     sequence s' = sequence s \<and> ref_seq_id s' = ref_seq_id s \<and> targ_seq_id s' = targ_seq_id s \<and>
     node_id s' = node_id s \<and> allocated s' = allocated s \<and> class_attrs s' = class_attrs s"
  using insert_node_data[of n s self node v s'] by (simp add: same_data_def)

theorem insert_node_frame_witness:
  "\<exists>s1 s2. init two_nodes 3 3 None None None () () () = Return (2, s1)
     \<and> insert_node 20 s1 0 2 = Return (None, s2)
     \<and> interval_start s2 = interval_start s1 \<and> interval_end s2 = interval_end s1
     \<and> sequence s2 = sequence s1 \<and> ref_seq_id s2 = ref_seq_id s1
     \<and> targ_seq_id s2 = targ_seq_id s1 \<and> node_id s2 = node_id s1
     \<and> allocated s2 = allocated s1 \<and> class_attrs s2 = class_attrs s1"
proof -
  have "\<exists>s1 s2. init two_nodes 3 3 None None None () () () = Return (2, s1)
          \<and> insert_node 20 s1 0 2 = Return (None, s2)"
    by (simp add: run_defs two_nodes_def)
  then obtain s1 s2 where
    c: "init two_nodes 3 3 None None None () () () = Return (2, s1)" and
    i: "insert_node 20 s1 0 2 = Return (None, s2)" by blast
  from insert_node_frame[OF i] c i show ?thesis by blast
qed

section \<open>Placement\<close>

text \<open>
  C6. \<open>insert\<close> places the new node as the specification describes: it descends by
  comparing \<open>interval_start\<close>, going left where the visited node's start is greater than
  or equal to the new node's start and right otherwise, attaches the new node at the first
  missing child slot with its parent link set to the owner of the slot, and only then
  rebalances from that owner and raises \<open>max_position\<close> along the visited nodes. The
  recursive method and the specification's description compute the same result, errors
  and running out of fuel included.
\<close>

theorem insert_node_places_as_specified:
  "insert_node n s self node = place_then_rebalance n s self node"
proof (induction n arbitrary: self)
  case 0
  show ?case by (simp add: place_then_rebalance_def)
next
  case (Suc n)
  show ?case
  proof (cases "interval_start s self \<ge> interval_start s node")
    case True
    show ?thesis
    proof (cases "left_child s self")
      case None
      with True show ?thesis by (simp add: place_then_rebalance_def attach_def)
    next
      case (Some l)
      with True show ?thesis
        by (cases "find_slot n s l node")
           (auto simp: Suc.IH place_then_rebalance_def rbind_assoc
                 split: result.splits prod.splits)
    qed
  next
    case False
    show ?thesis
    proof (cases "right_child s self")
      case None
      with False show ?thesis by (simp add: place_then_rebalance_def attach_def)
    next
      case (Some r)
      with False show ?thesis
        by (cases "find_slot n s r node")
           (auto simp: Suc.IH place_then_rebalance_def rbind_assoc
                 split: result.splits prod.splits)
    qed
  qed
qed

section \<open>Runs that break the specification\<close>

text \<open>
  C4. Insertion is to return normally on every non-empty tree. Inserting \<open>(3, 3)\<close>,
  \<open>(2, 2)\<close>, \<open>(1, 1)\<close> in this order: the third node becomes the left child of the
  second, whose balance factor becomes \<open>-1\<close>; the driver moves on to the parent, the
  first node, which has no right child, and line 175 reads
  \<open>self.parent.right_child.node_id\<close>: \<open>AttributeError\<close>.
\<close>

theorem insert_raises_on_decreasing_starts:
  "main_inserts 20 () None (start_store class_with_counter ()) [(3, 3), (2, 2), (1, 1)]
     = Raise AttributeError"
  by (simp add: run_defs)

text \<open>
  C2. After every insertion, \<open>max_position\<close> of every node is to be the largest
  \<open>interval_end\<close> of its subtree. Inserting \<open>(1, 1)\<close>, \<open>(2, 2)\<close>, \<open>(3, 3)\<close>: the third
  insertion rotates left at the first node, which ends as a leaf with \<open>interval_end = 1\<close>
  and keeps the \<open>max_position = 2\<close> it had before the rotation.
\<close>

theorem max_position_stale_after_rotation:
  "observe (main_inserts 20 () None (start_store class_with_counter ())
              [(1, 1), (2, 2), (3, 3)])
     = Return (Some 0,
         [(1, 1, None, None, Some 1, 0, 2),
          (2, 2, Some 0, Some 2, None, 0, 3),
          (3, 3, None, None, Some 1, 0, 3)])"
  by (simp add: run_defs)

text \<open>
  C3. \<open>insert\<close> is to return the new root. On the tree of two nodes, whose root is node
  \<open>0\<close>, inserting \<open>(3, 3)\<close> rotates: node \<open>1\<close> becomes the root (its parent is \<open>None\<close>,
  node \<open>0\<close> is its left child), and the call returns \<open>None\<close>.
\<close>

theorem insert_returns_None_after_root_change:
  "observe (create_and_insert 20 () two_nodes 0 (3, 3))
     = Return (None,
         [(1, 1, None, None, Some 1, 0, 2),
          (2, 2, Some 0, Some 2, None, 0, 3),
          (3, 3, None, None, Some 1, 0, 3)])"
  by (simp add: run_defs two_nodes_def)

text \<open>
  C5. After every insertion the starts are to be ordered: in-order traversal yields them in
  non-decreasing order. The main loop keeps calling \<open>insert\<close> on its first node. After
  \<open>(1, 1)\<close>, \<open>(2, 2)\<close>, \<open>(3, 3)\<close> that node is the left child of the root, and
  \<open>(4, 4)\<close> is attached as its right child: the start \<open>4\<close> lies in the left subtree of
  the root, whose start is \<open>2\<close>, and the in-order traversal is \<open>1, 4, 2, 3\<close>.
\<close>

theorem stale_handle_breaks_ordering:
  "observe (main_inserts 20 () None (start_store class_with_counter ())
              [(1, 1), (2, 2), (3, 3), (4, 4)])
     = Return (Some 0,
         [(1, 1, None, Some 3, Some 1, 1, 4),
          (2, 2, Some 0, Some 2, None, - 1, 3),
          (3, 3, None, None, Some 1, 0, 3),
          (4, 4, None, None, Some 0, 0, 4)])
   \<and> main_inorder 20 () [(1, 1), (2, 2), (3, 3), (4, 4)] = Return [1, 4, 2, 3]
   \<and> \<not> sorted [1, 4, 2, 3 :: int]"
  by (simp add: run_defs)

section \<open>Balance factors\<close>










lemma mirrored_mirrored [simp]: "mirrored (mirrored s) = s"
  by (simp add: mirrored_def)












lemma links_ok_bf [simp]: "links_ok (s\<lparr>balance_factor := g\<rparr>) = links_ok s"
  by (simp add: links_ok_def)

lemma ids_ok_bf [simp]: "ids_ok (s\<lparr>balance_factor := g\<rparr>) = ids_ok s"
  by (simp add: ids_ok_def)

lemma inv_update_max_position [simp]: "tree_inv (update_max_position s a) = tree_inv s"
  by (simp add: update_max_position_def tree_inv_def links_ok_def ids_ok_def balance_ok_def
      split: option.splits)

text \<open>The driver, unfolded for each balance factor it can meet.\<close>

lemma set_bf_fields [simp]:
  "left_child (set_bf s a b) = left_child s" "right_child (set_bf s a b) = right_child s"
  "parent (set_bf s a b) = parent s" "node_id (set_bf s a b) = node_id s"
  "balance_factor (set_bf s a b) = (balance_factor s)(a := b)"
  "allocated (set_bf s a b) = allocated s"
  by (simp_all add: set_bf_def)

































end
